theory Spec2Isabelle
  imports Complex_Main
begin

section \<open>JavaScript numbers\<close>

text \<open>
  The quantities that \<^verbatim>\<open>src/src/App.jsx\<close> compares and subtracts are JavaScript
  numbers. A finite number is modelled by its real value (rounding of the binary
  representation is not modelled); the two infinities and NaN are separate values,
  because the comparisons of the source behave differently on them.
\<close>

datatype jsnum = Fin real | PosInf | NegInf | NaN

text \<open>The operator \<^verbatim>\<open>a < b\<close>: false as soon as one side is NaN.\<close>

fun js_lt :: "jsnum \<Rightarrow> jsnum \<Rightarrow> bool" where
  "js_lt NaN b = False"
| "js_lt a NaN = False"
| "js_lt (Fin a) (Fin b) = (a < b)"
| "js_lt a NegInf = False"
| "js_lt NegInf b = True"
| "js_lt PosInf b = False"
| "js_lt (Fin a) PosInf = True"

text \<open>The operator \<^verbatim>\<open>a > b\<close> is \<^verbatim>\<open>b < a\<close>.\<close>

definition js_gt :: "jsnum \<Rightarrow> jsnum \<Rightarrow> bool" where
  "js_gt a b = js_lt b a"

text \<open>The operator \<^verbatim>\<open>a - b\<close>.\<close>

fun js_sub :: "jsnum \<Rightarrow> jsnum \<Rightarrow> jsnum" where
  "js_sub NaN b = NaN"
| "js_sub a NaN = NaN"
| "js_sub (Fin a) (Fin b) = Fin (a - b)"
| "js_sub PosInf PosInf = NaN"
| "js_sub NegInf NegInf = NaN"
| "js_sub PosInf b = PosInf"
| "js_sub NegInf b = NegInf"
| "js_sub (Fin a) PosInf = NegInf"
| "js_sub (Fin a) NegInf = PosInf"

text \<open>Rounding towards zero.\<close>

definition js_trunc :: "real \<Rightarrow> int" where
  "js_trunc x = (if 0 \<le> x then \<lfloor>x\<rfloor> else - \<lfloor>- x\<rfloor>)"

text \<open>
  \<^verbatim>\<open>parseInt(x)\<close> applied to a number first prints the number and then reads the
  leading integer of the text. Zero and every number of magnitude from \<open>10\<^sup>-\<^sup>6\<close> up to,
  but excluding, \<open>10\<^sup>2\<^sup>1\<close> are printed in positional notation, so the integer read is
  the number rounded towards zero. The infinities and NaN print as words and give NaN.
  Every other finite number is printed in exponent notation and the integer read is
  its leading digit, which depends on the shortest decimal that identifies the binary
  number; that part is not modelled and is the parameter \<open>ex\<close>.
\<close>

fun parseInt :: "(real \<Rightarrow> jsnum) \<Rightarrow> jsnum \<Rightarrow> jsnum" where
  "parseInt ex (Fin x) =
     (if x = 0 \<or> (1 / 10 ^ 6 \<le> \<bar>x\<bar> \<and> \<bar>x\<bar> < 10 ^ 21) then Fin (of_int (js_trunc x))
      else ex x)"
| "parseInt ex PosInf = NaN"
| "parseInt ex NegInf = NaN"
| "parseInt ex NaN = NaN"

section \<open>The store\<close>

text \<open>
  \<^verbatim>\<open>useStore\<close> (lines 22 to 30) holds the score, the time left and the game-over flag.
  The score only ever holds integers (it starts at 0 and changes by \<^verbatim>\<open>+ 1\<close> or to 0); a
  JavaScript number holds every integer up to \<open>2\<^sup>5\<^sup>3\<close> exactly, so the score is
  modelled as an integer and \<^verbatim>\<open>+ 1\<close> as the integer sum, which is what the source
  computes while the score is below \<open>2\<^sup>5\<^sup>3\<close>. At \<open>2\<^sup>5\<^sup>3\<close> the sum of the source
  rounds back to \<open>2\<^sup>5\<^sup>3\<close>; the model does not represent that, so the integer sum
  of the model is the sum of the source for scores below \<open>2\<^sup>5\<^sup>3\<close> only. Each
  setter of the store merges the fields it names into the state and leaves the others
  as they are.
\<close>

definition ROUND_DURATION :: real where
  "ROUND_DURATION = 10"

record store =
  score :: int
  timeLeft :: jsnum
  gameOver :: bool

definition useStore :: store where
  "useStore = \<lparr>score = 0, timeLeft = Fin ROUND_DURATION, gameOver = False\<rparr>"

definition addPoint :: "store \<Rightarrow> store" where
  "addPoint state = state\<lparr>score := score state + 1\<rparr>"

definition resetScore :: "store \<Rightarrow> store" where
  "resetScore state = state\<lparr>score := 0\<rparr>"

definition setTimeLeft :: "jsnum \<Rightarrow> store \<Rightarrow> store" where
  "setTimeLeft seconds state = state\<lparr>timeLeft := seconds\<rparr>"

definition setGameOver :: "bool \<Rightarrow> store \<Rightarrow> store" where
  "setGameOver over state = state\<lparr>gameOver := over\<rparr>"

section \<open>The round clock\<close>

text \<open>
  The frame callback of \<^verbatim>\<open>Scene\<close> (lines 195 to 201), called once per rendered frame
  with the clock's elapsed time. The callback reads the \<^verbatim>\<open>gameOver\<close> that the component
  selected from the store at its latest render; the component renders again on every
  change of the store, so the model reads the field of the store.
\<close>

definition useFrame :: "(real \<Rightarrow> jsnum) \<Rightarrow> jsnum \<Rightarrow> store \<Rightarrow> store" where
  "useFrame ex elapsedTime state =
     (if \<not> gameOver state \<and> js_gt elapsedTime (Fin (ROUND_DURATION + 1))
      then setGameOver True state
      else if \<not> gameOver state
      then setTimeLeft (js_sub (Fin ROUND_DURATION) (parseInt ex elapsedTime)) state
      else state)"

text \<open>A run of frames, oldest first.\<close>

fun frames :: "(real \<Rightarrow> jsnum) \<Rightarrow> jsnum list \<Rightarrow> store \<Rightarrow> store" where
  "frames ex [] state = state"
| "frames ex (t # ts) state = frames ex ts (useFrame ex t state)"

section \<open>The scoring trigger\<close>

text \<open>
  \<^verbatim>\<open>Hoop\<close> (lines 98 to 150) keeps one flag, \<^verbatim>\<open>scorable\<close>, created false, and registers
  two handlers on the trigger box. A handler receives the colliding body; the handlers
  read the vertical component of its velocity and set the colour of its material.
  The colours of the bodies live outside the handlers and are a map from the identity
  of a body to its colour.
\<close>

record body =
  ident :: nat
  velocity_y :: jsnum

record game =
  zustand :: store
  scorable :: bool
  material_color :: "nat \<Rightarrow> nat"

definition ball_color :: nat where
  "ball_color = 0xF55951"

definition scored_color :: nat where
  "scored_color = 0xC698D"

definition setHex :: "nat \<Rightarrow> nat \<Rightarrow> game \<Rightarrow> game" where
  "setHex b hex g = g\<lparr>material_color := (material_color g)(b := hex)\<rparr>"

definition initial_game :: game where
  "initial_game = \<lparr>zustand = useStore, scorable = False, material_color = (\<lambda>b. ball_color)\<rparr>"

definition onCollideBegin :: "body \<Rightarrow> game \<Rightarrow> game" where
  "onCollideBegin b g =
     (if js_lt (velocity_y b) (Fin 0) then g\<lparr>scorable := True\<rparr>
      else g\<lparr>scorable := False\<rparr>)"

definition onCollideEnd :: "body \<Rightarrow> game \<Rightarrow> game" where
  "onCollideEnd b g =
     (let g' = (if scorable g \<and> js_lt (velocity_y b) (Fin 1)
                then setHex (ident b) scored_color (g\<lparr>zustand := addPoint (zustand g)\<rparr>)
                else g)
      in g'\<lparr>scorable := False\<rparr>)"

text \<open>The frame callback acting on the store of the whole game.\<close>

definition frame :: "(real \<Rightarrow> jsnum) \<Rightarrow> jsnum \<Rightarrow> game \<Rightarrow> game" where
  "frame ex elapsedTime g = g\<lparr>zustand := useFrame ex elapsedTime (zustand g)\<rparr>"

section \<open>Traces of events\<close>

text \<open>
  The physics engine and the render loop call the three callbacks one at a time. A
  trace lists the calls, oldest first: a body entering the trigger, a body leaving it,
  a rendered frame with its elapsed time.
\<close>

datatype event = Enter body | Exit body | Frame jsnum

fun handle :: "(real \<Rightarrow> jsnum) \<Rightarrow> event \<Rightarrow> game \<Rightarrow> game" where
  "handle ex (Enter b) g = onCollideBegin b g"
| "handle ex (Exit b) g = onCollideEnd b g"
| "handle ex (Frame t) g = frame ex t g"

fun run :: "(real \<Rightarrow> jsnum) \<Rightarrow> event list \<Rightarrow> game \<Rightarrow> game" where
  "run ex [] g = g"
| "run ex (e # es) g = run ex es (handle ex e g)"

text \<open>
  The next two definitions follow the words of the specification, not the source. An
  exit has a corresponding prior armed entry when the most recent collision event of
  the trace before it is an entry whose vertical velocity is negative.
\<close>

fun is_collision :: "event \<Rightarrow> bool" where
  "is_collision (Enter b) = True"
| "is_collision (Exit b) = True"
| "is_collision (Frame t) = False"

definition armed_entry_pending :: "event list \<Rightarrow> bool" where
  "armed_entry_pending evs =
     (case find is_collision (rev evs) of
        Some (Enter a) \<Rightarrow> js_lt (velocity_y a) (Fin 0)
      | _ \<Rightarrow> False)"

section \<open>The countdown as the specification words it\<close>

text \<open>
  This definition follows the words of the specification, not the source:
  the time left is \<open>max(0, roundDuration - floor(elapsedSeconds))\<close>. It is compared
  with what \<open>useFrame\<close> stores.
\<close>

definition spec_timeLeft :: "real \<Rightarrow> real" where
  "spec_timeLeft elapsedSeconds = max 0 (ROUND_DURATION - of_int \<lfloor>elapsedSeconds\<rfloor>)"

section \<open>The score\<close>

lemma score_addPoint: "score (addPoint state) = score state + 1"
  by (simp add: addPoint_def)

lemma score_addPoint_funpow: "score ((addPoint ^^ n) state) = score state + int n"
  by (induction n) (simp_all add: score_addPoint)

text \<open>
  Claim C6. The sum \<^verbatim>\<open>state.score + 1\<close> of the source is exact while the score is
  below \<open>2\<^sup>5\<^sup>3\<close>, and the statement is made for that range. Starting from score zero,
  \<open>n\<close> calls of \<open>addPoint\<close> give score \<open>n\<close>, for every \<open>n\<close> up to \<open>2\<^sup>5\<^sup>3\<close>; each of
  these calls is made at a score from 0 to below \<open>2\<^sup>5\<^sup>3\<close>. Every call made at such a
  score, however many calls came before and however fast they follow each other,
  raises the score by exactly one, to at most \<open>2\<^sup>5\<^sup>3\<close>. And \<open>resetScore\<close> gives score 0
  from every state.
\<close>

theorem C6_increment_and_reset:
  "(n \<le> 2 ^ 53 \<longrightarrow> score ((addPoint ^^ n) useStore) = int n)
   \<and> (k < n \<and> n \<le> 2 ^ 53 \<longrightarrow>
        0 \<le> score ((addPoint ^^ k) useStore) \<and> score ((addPoint ^^ k) useStore) < 2 ^ 53)
   \<and> (0 \<le> score state \<and> score state < 2 ^ 53 \<longrightarrow>
        score (addPoint state) = score state + 1
        \<and> score state < score (addPoint state)
        \<and> score (addPoint state) \<le> 2 ^ 53)
   \<and> score (resetScore state) = 0"
proof (intro conjI impI)
  show "score ((addPoint ^^ n) useStore) = int n"
    by (simp add: score_addPoint_funpow useStore_def)
next
  assume "k < n \<and> n \<le> 2 ^ 53"
  then have "k < 2 ^ 53"
    by simp
  then have "int k < 2 ^ 53"
    by (simp only: of_nat_less_numeral_power_cancel_iff)
  then show "score ((addPoint ^^ k) useStore) < 2 ^ 53"
    by (simp add: score_addPoint_funpow useStore_def)
  show "0 \<le> score ((addPoint ^^ k) useStore)"
    by (simp add: score_addPoint_funpow useStore_def)
next
  assume "0 \<le> score state \<and> score state < 2 ^ 53"
  then show "score (addPoint state) \<le> 2 ^ 53"
    by (simp add: score_addPoint)
next
  show "score (addPoint state) = score state + 1"
    by (rule score_addPoint)
next
  show "score state < score (addPoint state)"
    by (simp add: score_addPoint)
next
  show "score (resetScore state) = 0"
    by (simp add: resetScore_def)
qed

text \<open>
  Three calls from the initial store give score 3, the third made at score 2; a call
  at score 41 gives 42; a reset at score 41 gives 0.
\<close>

theorem C6_increment_and_reset_witness:
  "score ((addPoint ^^ 3) useStore) = 3
   \<and> score ((addPoint ^^ 2) useStore) < 2 ^ 53
   \<and> score (addPoint (useStore\<lparr>score := 41\<rparr>)) = 42
   \<and> score (resetScore (useStore\<lparr>score := 41\<rparr>)) = 0"
proof -
  have n: "(3::nat) \<le> 2 ^ 53" "(2::nat) < 3 \<and> (3::nat) \<le> 2 ^ 53"
    by simp_all
  have s: "0 \<le> score (useStore\<lparr>score := 41\<rparr>) \<and> score (useStore\<lparr>score := 41\<rparr>) < 2 ^ 53"
    by simp
  from C6_increment_and_reset [of 3 2 "useStore\<lparr>score := 41\<rparr>"] n s
  show ?thesis by simp
qed

section \<open>The round clock\<close>

subsection \<open>What one frame and a run of frames do\<close>

lemma useFrame_over: "gameOver state \<Longrightarrow> useFrame ex t state = state"
  by (simp add: useFrame_def)

lemma frames_over: "gameOver state \<Longrightarrow> frames ex ts state = state"
  by (induction ts) (simp_all add: useFrame_over)

lemma gameOver_useFrame:
  "gameOver (useFrame ex t state) = (gameOver state \<or> js_gt t (Fin (ROUND_DURATION + 1)))"
  by (simp add: useFrame_def setGameOver_def setTimeLeft_def)

lemma gameOver_frames:
  "gameOver (frames ex ts state) =
     (gameOver state \<or> (\<exists>t \<in> set ts. js_gt t (Fin (ROUND_DURATION + 1))))"
  by (induction ts arbitrary: state) (auto simp: gameOver_useFrame)

lemma score_useFrame: "score (useFrame ex t state) = score state"
  by (simp add: useFrame_def setGameOver_def setTimeLeft_def)

lemma score_frames: "score (frames ex ts state) = score state"
  by (induction ts arbitrary: state) (simp_all add: score_useFrame)

lemma timeLeft_useFrame_ending:
  "\<not> gameOver state \<Longrightarrow> js_gt t (Fin (ROUND_DURATION + 1)) \<Longrightarrow>
   timeLeft (useFrame ex t state) = timeLeft state"
  by (simp add: useFrame_def setGameOver_def)

lemma timeLeft_useFrame_running:
  "\<not> gameOver state \<Longrightarrow> \<not> js_gt t (Fin (ROUND_DURATION + 1)) \<Longrightarrow>
   timeLeft (useFrame ex t state) = js_sub (Fin ROUND_DURATION) (parseInt ex t)"
  by (simp add: useFrame_def setTimeLeft_def)

subsection \<open>The countdown\<close>

lemma parseInt_positional:
  "0 \<le> x \<Longrightarrow> x = 0 \<or> 1 / 10 ^ 6 \<le> x \<Longrightarrow> x < 10 ^ 21 \<Longrightarrow>
   parseInt ex (Fin x) = Fin (of_int \<lfloor>x\<rfloor>)"
  by (auto simp: js_trunc_def)

lemma spec_timeLeft_below:
  assumes "x < ROUND_DURATION + 1"
  shows "spec_timeLeft x = ROUND_DURATION - of_int \<lfloor>x\<rfloor>" and "0 \<le> spec_timeLeft x"
proof -
  from assms have "\<lfloor>x\<rfloor> < 11"
    by (simp add: ROUND_DURATION_def floor_less_iff)
  then have "of_int \<lfloor>x\<rfloor> \<le> (10::real)"
    by linarith
  then show "spec_timeLeft x = ROUND_DURATION - of_int \<lfloor>x\<rfloor>"
    by (simp add: spec_timeLeft_def ROUND_DURATION_def)
  show "0 \<le> spec_timeLeft x"
    by (simp add: spec_timeLeft_def)
qed

text \<open>
  Claim C3, as stated, fails. The claim says that after every tick the time left is
  \<open>max(0, roundDuration - floor(elapsedSeconds))\<close>, never negative. The first frame of a
  round that arrives at 12 seconds takes the first branch of the callback, which only
  sets the game-over flag: the time left stays at its initial 10, where the claim says 0.
  A frame at exactly 11 seconds is not beyond \<open>ROUND_DURATION + 1\<close>, so the second
  branch stores \<open>10 - 11\<close>: the time left is \<open>-1\<close>, where the claim says 0.
\<close>

theorem C3_counterexample:
  "timeLeft (useFrame (\<lambda>x. NaN) (Fin 12) useStore) = Fin 10
   \<and> spec_timeLeft 12 = 0
   \<and> timeLeft (useFrame (\<lambda>x. NaN) (Fin 12) useStore) \<noteq> Fin (spec_timeLeft 12)
   \<and> timeLeft (useFrame (\<lambda>x. NaN) (Fin 11) useStore) = Fin (- 1)
   \<and> spec_timeLeft 11 = 0
   \<and> timeLeft (useFrame (\<lambda>x. NaN) (Fin 11) useStore) \<noteq> Fin (spec_timeLeft 11)"
  by (simp add: useFrame_def useStore_def setGameOver_def setTimeLeft_def js_gt_def
      ROUND_DURATION_def spec_timeLeft_def js_trunc_def)

text \<open>
  Claim C3, amended. While the game is not over, a frame whose elapsed time is 0 or
  lies from \<open>10\<^sup>-\<^sup>6\<close> up to, but excluding, \<open>ROUND_DURATION + 1\<close> stores
  \<open>max(0, roundDuration - floor(elapsedSeconds))\<close> as the time left, and that value is
  not negative. A frame whose elapsed time exceeds \<open>ROUND_DURATION + 1\<close>, and every
  frame once the game is over, leaves the time left as it was.
\<close>

theorem C3_timeLeft_while_running:
  "(\<not> gameOver state \<and> (x = 0 \<or> 1 / 10 ^ 6 \<le> x) \<and> x < ROUND_DURATION + 1 \<longrightarrow>
      timeLeft (useFrame ex (Fin x) state) = Fin (spec_timeLeft x) \<and> 0 \<le> spec_timeLeft x)
   \<and> (gameOver state \<or> js_gt t (Fin (ROUND_DURATION + 1)) \<longrightarrow>
      timeLeft (useFrame ex t state) = timeLeft state)"
proof (intro conjI impI)
  assume a: "\<not> gameOver state \<and> (x = 0 \<or> 1 / 10 ^ 6 \<le> x) \<and> x < ROUND_DURATION + 1"
  then have x: "0 \<le> x" "x = 0 \<or> 1 / 10 ^ 6 \<le> x" "x < 10 ^ 21"
    by (auto simp: ROUND_DURATION_def intro: order_trans [of 0 "1 / 10 ^ 6" x])
  from a have "\<not> js_gt (Fin x) (Fin (ROUND_DURATION + 1))"
    by (simp add: js_gt_def)
  with a have "timeLeft (useFrame ex (Fin x) state)
      = js_sub (Fin ROUND_DURATION) (parseInt ex (Fin x))"
    by (simp add: timeLeft_useFrame_running)
  also have "\<dots> = Fin (ROUND_DURATION - of_int \<lfloor>x\<rfloor>)"
    using x by (simp only: parseInt_positional js_sub.simps)
  also have "\<dots> = Fin (spec_timeLeft x)"
    using a by (simp add: spec_timeLeft_below(1))
  finally show "timeLeft (useFrame ex (Fin x) state) = Fin (spec_timeLeft x)" .
  from a show "0 \<le> spec_timeLeft x"
    by (simp add: spec_timeLeft_below(2))
next
  assume "gameOver state \<or> js_gt t (Fin (ROUND_DURATION + 1))"
  then show "timeLeft (useFrame ex t state) = timeLeft state"
    by (cases "gameOver state") (simp_all add: useFrame_over timeLeft_useFrame_ending)
qed

text \<open>
  The round of 10 seconds at 10.9 seconds, from the initial store: the time left is 0;
  and a following frame at 11.1 seconds leaves it at 0.
\<close>

theorem C3_timeLeft_while_running_witness:
  "timeLeft (useFrame (\<lambda>x. NaN) (Fin 10.9) useStore) = Fin 0
   \<and> timeLeft (useFrame (\<lambda>x. NaN) (Fin 11.1) (useFrame (\<lambda>x. NaN) (Fin 10.9) useStore)) = Fin 0"
proof -
  have run: "\<not> gameOver useStore \<and> ((10.9::real) = 0 \<or> 1 / 10 ^ 6 \<le> (10.9::real))
      \<and> (10.9::real) < ROUND_DURATION + 1"
    by (simp add: useStore_def ROUND_DURATION_def)
  have beyond: "gameOver (useFrame (\<lambda>x. NaN) (Fin 10.9) useStore)
      \<or> js_gt (Fin 11.1) (Fin (ROUND_DURATION + 1))"
    by (simp add: js_gt_def ROUND_DURATION_def)
  have val: "spec_timeLeft 10.9 = 0"
    by (simp add: spec_timeLeft_def ROUND_DURATION_def)
  from C3_timeLeft_while_running [of useStore "10.9" "\<lambda>x. NaN"] run val
  have first: "timeLeft (useFrame (\<lambda>x. NaN) (Fin 10.9) useStore) = Fin 0"
    by simp
  from C3_timeLeft_while_running
    [of "useFrame (\<lambda>x. NaN) (Fin 10.9) useStore" _ "\<lambda>x. NaN" "Fin 11.1"] beyond first
  show ?thesis by simp
qed

subsection \<open>The game-over flag\<close>

lemma sorted_take_last:
  fixes c :: real
  assumes "sorted ts" and "i < length ts"
  shows "(\<exists>t \<in> set (take (Suc i) ts). c < t) = (c < ts ! i)"
proof
  assume "\<exists>t \<in> set (take (Suc i) ts). c < t"
  then obtain j where j: "j < Suc i" "j < length ts" "c < ts ! j"
    by (auto simp: in_set_conv_nth)
  from assms j have "ts ! j \<le> ts ! i"
    by (simp add: sorted_nth_mono)
  with j show "c < ts ! i" by simp
next
  assume "c < ts ! i"
  moreover from assms have "ts ! i \<in> set (take (Suc i) ts)"
    by (auto simp: in_set_conv_nth intro!: exI[of _ i])
  ultimately show "\<exists>t \<in> set (take (Suc i) ts). c < t" by blast
qed

text \<open>
  Claim C4. Take a run of frames with non-decreasing elapsed times \<open>ts\<close>, started in a
  store whose game is not over. After the frame number \<open>i\<close> the game is over exactly
  when the elapsed time of that frame exceeds \<open>ROUND_DURATION + 1\<close>: the flag is false
  up to and including every frame at \<open>ROUND_DURATION + 1\<close> or before, and true from the
  first frame beyond. Once the flag is true, it is true after every further run of
  frames \<open>us\<close>, whatever their elapsed times (decreasing, infinite or NaN).
\<close>

theorem C4_gameOver_terminal:
  "(sorted ts \<and> \<not> gameOver state \<and> i < length ts \<longrightarrow>
      gameOver (frames ex (map Fin (take (Suc i) ts)) state) = (ROUND_DURATION + 1 < ts ! i))
   \<and> (gameOver state' \<longrightarrow> gameOver (frames ex us state'))"
  using sorted_take_last [of ts i "ROUND_DURATION + 1"]
  by (simp add: gameOver_frames js_gt_def)

text \<open>
  The round of 10 seconds: not over after the frame at 10.9 seconds, over after the
  frame at 11.1 seconds, and still over after later frames at 3 seconds, NaN and 0.
\<close>

theorem C4_gameOver_terminal_witness:
  "\<not> gameOver (frames (\<lambda>x. NaN) (map Fin (take (Suc 0) [10.9, 11.1])) useStore)
   \<and> gameOver (frames (\<lambda>x. NaN) (map Fin (take (Suc 1) [10.9, 11.1])) useStore)
   \<and> gameOver (frames (\<lambda>x. NaN) [Fin 3, NaN, Fin 0]
        (frames (\<lambda>x. NaN) (map Fin (take (Suc 1) [10.9, 11.1])) useStore))"
  using C4_gameOver_terminal [of "[10.9, 11.1]" useStore 0 "\<lambda>x. NaN"]
    C4_gameOver_terminal [of "[10.9, 11.1]" useStore 1 "\<lambda>x. NaN"
      "frames (\<lambda>x. NaN) (map Fin (take (Suc 1) [10.9, 11.1])) useStore" "[Fin 3, NaN, Fin 0]"]
  by (simp add: useStore_def ROUND_DURATION_def)

text \<open>
  Claim C10. Once the game is over, every further run of frames leaves the time left
  unchanged. The frame that ends the game does not change the time left either, so the
  time left stays at the value it had when the flag became true.
\<close>

theorem C10_timeLeft_frozen:
  "(gameOver state \<longrightarrow> timeLeft (frames ex ts state) = timeLeft state)
   \<and> (\<not> gameOver state \<and> js_gt t (Fin (ROUND_DURATION + 1)) \<longrightarrow>
        gameOver (useFrame ex t state)
        \<and> timeLeft (frames ex ts (useFrame ex t state)) = timeLeft state)"
  by (simp add: frames_over gameOver_useFrame timeLeft_useFrame_ending)

text \<open>
  A frame at 9.5 seconds leaves 1 second; the frame at 11.5 seconds ends the game; the
  time left is still 1 after later frames at 3 seconds, 12 seconds and NaN.
\<close>

theorem C10_timeLeft_frozen_witness:
  "timeLeft (frames (\<lambda>x. NaN) [Fin 3, Fin 12, NaN] (useFrame (\<lambda>x. NaN) (Fin 11.5)
      (useFrame (\<lambda>x. NaN) (Fin 9.5) useStore))) = Fin 1
   \<and> timeLeft (frames (\<lambda>x. NaN) [Fin 3, Fin 12, NaN]
        (useStore\<lparr>timeLeft := Fin 4, gameOver := True\<rparr>)) = Fin 4"
proof -
  let ?s = "useFrame (\<lambda>x. NaN) (Fin 9.5) useStore"
  have s: "\<not> gameOver ?s \<and> js_gt (Fin 11.5) (Fin (ROUND_DURATION + 1))" "timeLeft ?s = Fin 1"
    by (simp_all add: useFrame_def useStore_def setTimeLeft_def js_gt_def ROUND_DURATION_def
        js_trunc_def)
  from C10_timeLeft_frozen [of ?s "\<lambda>x. NaN" "[Fin 3, Fin 12, NaN]" "Fin 11.5"]
    C10_timeLeft_frozen [of "useStore\<lparr>timeLeft := Fin 4, gameOver := True\<rparr>" "\<lambda>x. NaN"
      "[Fin 3, Fin 12, NaN]"] s
  show ?thesis by simp
qed

section \<open>The scoring trigger\<close>

subsection \<open>What each handler changes\<close>

lemma onCollideBegin_eq: "onCollideBegin a g = g\<lparr>scorable := js_lt (velocity_y a) (Fin 0)\<rparr>"
  by (simp add: onCollideBegin_def)

lemma scorable_onCollideBegin:
  "scorable (onCollideBegin a g) = js_lt (velocity_y a) (Fin 0)"
  by (simp add: onCollideBegin_def)

lemma onCollideBegin_keeps:
  "zustand (onCollideBegin a g) = zustand g"
  "material_color (onCollideBegin a g) = material_color g"
  by (simp_all add: onCollideBegin_def)

lemma zustand_onCollideEnd:
  "zustand (onCollideEnd b g) =
     (if scorable g \<and> js_lt (velocity_y b) (Fin 1) then addPoint (zustand g) else zustand g)"
  by (simp add: onCollideEnd_def setHex_def)

lemma material_color_onCollideEnd:
  "material_color (onCollideEnd b g) =
     (if scorable g \<and> js_lt (velocity_y b) (Fin 1)
      then (material_color g)(ident b := scored_color) else material_color g)"
  by (simp add: onCollideEnd_def setHex_def)

lemma scorable_onCollideEnd: "scorable (onCollideEnd b g) = False"
  by (simp add: onCollideEnd_def)

lemma onCollideEnd_unarmed: "\<not> scorable g \<Longrightarrow> onCollideEnd b g = g"
  by (cases g) (simp add: onCollideEnd_def)

subsection \<open>Traces\<close>

lemma run_append: "run ex (xs @ ys) g = run ex ys (run ex xs g)"
  by (induction xs arbitrary: g) simp_all

lemma run_frames: "run ex (map Frame ts) g = g\<lparr>zustand := frames ex ts (zustand g)\<rparr>"
  by (induction ts arbitrary: g) (simp_all add: frame_def)

text \<open>
  The flag after a trace is decided by the most recent collision event: an entry sets
  it to the sign test of that entry, an exit clears it, and frames do not touch it.
\<close>

lemma scorable_run:
  "scorable (run ex evs g) =
     (case find is_collision (rev evs) of
        None \<Rightarrow> scorable g
      | Some (Enter a) \<Rightarrow> js_lt (velocity_y a) (Fin 0)
      | Some (Exit b) \<Rightarrow> False
      | Some (Frame t) \<Rightarrow> scorable g)"
proof (induction evs rule: rev_induct)
  case Nil
  show ?case by simp
next
  case (snoc e evs)
  show ?case
  proof (cases e)
    case (Frame t)
    with snoc show ?thesis
      by (simp add: run_append frame_def)
  qed (simp_all add: run_append scorable_onCollideBegin scorable_onCollideEnd)
qed

lemma scorable_run_initial: "scorable (run ex evs initial_game) = armed_entry_pending evs"
proof -
  have "find is_collision (rev evs) \<noteq> Some (Frame t)" for t
    by (metis find_Some_iff is_collision.simps(3))
  then show ?thesis
    by (auto simp: scorable_run armed_entry_pending_def initial_game_def
        split: option.splits event.splits)
qed

subsection \<open>The scenarios of the specification\<close>

lemma scenario_made_basket:
  "score (zustand (run ex [Enter \<lparr>ident = 0, velocity_y = Fin (- 3)\<rparr>,
     Exit \<lparr>ident = 0, velocity_y = Fin 0.5\<rparr>] initial_game)) = 1"
  by (simp add: zustand_onCollideEnd scorable_onCollideBegin onCollideBegin_keeps
      score_addPoint initial_game_def useStore_def)

lemma scenario_rebound_rejected:
  "score (zustand (run ex [Enter \<lparr>ident = 0, velocity_y = Fin (- 3)\<rparr>,
     Exit \<lparr>ident = 0, velocity_y = Fin 4\<rparr>] initial_game)) = 0"
  by (simp add: zustand_onCollideEnd scorable_onCollideBegin onCollideBegin_keeps
      initial_game_def useStore_def)

lemma scenario_entry_from_below:
  "score (zustand (run ex [Enter \<lparr>ident = 0, velocity_y = Fin 2\<rparr>,
     Exit \<lparr>ident = 0, velocity_y = Fin (- 1)\<rparr>] initial_game)) = 0"
  by (simp add: zustand_onCollideEnd scorable_onCollideBegin onCollideBegin_keeps
      initial_game_def useStore_def)

text \<open>
  The flag belongs to the region, not to a body. When a second body enters from below
  while a first, falling body is inside, the entry of the second overwrites the flag
  and the exit of the first does not score.
\<close>

lemma scenario_two_bodies_share_the_flag:
  "score (zustand (run ex [Enter \<lparr>ident = 1, velocity_y = Fin (- 3)\<rparr>,
     Enter \<lparr>ident = 2, velocity_y = Fin 2\<rparr>,
     Exit \<lparr>ident = 1, velocity_y = Fin (- 3)\<rparr>] initial_game)) = 0"
  by (simp add: zustand_onCollideEnd scorable_onCollideBegin onCollideBegin_keeps
      initial_game_def useStore_def)

subsection \<open>Entry and exit\<close>

text \<open>
  Claim C1. A body enters the region (\<open>a\<close> is the body as the entry handler sees it),
  any number of frames pass, and the body leaves (\<open>b\<close> is the body as the exit handler
  sees it); entry and exit are consecutive collision events of the region. The exit
  calls \<open>addPoint\<close> once and recolours the body if the entry armed the region (vertical
  velocity below 0 at entry) and the vertical velocity at exit is below 1; otherwise
  the exit changes neither the store nor any colour. So the score after the pass is one
  more than before in the first case and equal in the second. After every exit, from
  whatever state, the flag is false.
\<close>

theorem C1_score_event_on_exit:
  "zustand (run ex (Enter a # map Frame ts @ [Exit b]) g) =
     (if js_lt (velocity_y a) (Fin 0) \<and> js_lt (velocity_y b) (Fin 1)
      then addPoint (frames ex ts (zustand g)) else frames ex ts (zustand g))
   \<and> material_color (run ex (Enter a # map Frame ts @ [Exit b]) g) =
     (if js_lt (velocity_y a) (Fin 0) \<and> js_lt (velocity_y b) (Fin 1)
      then (material_color g)(ident b := scored_color) else material_color g)
   \<and> score (zustand (run ex (Enter a # map Frame ts @ [Exit b]) g)) =
     score (zustand g)
       + (if js_lt (velocity_y a) (Fin 0) \<and> js_lt (velocity_y b) (Fin 1) then 1 else 0)
   \<and> scorable (run ex (Enter a # map Frame ts @ [Exit b]) g) = False
   \<and> scorable (onCollideEnd b g') = False"
  by (simp add: run_append run_frames zustand_onCollideEnd material_color_onCollideEnd
      scorable_onCollideEnd scorable_onCollideBegin onCollideBegin_keeps score_addPoint
      score_frames)

text \<open>
  Claim C2. The entry handler sets the flag to true when the vertical velocity of the
  entering body is below 0 and to false otherwise (for a finite velocity \<open>v\<close>: true
  exactly when \<open>v < 0\<close>). After an entry whose velocity is not below 0, the exit that
  follows, with any number of frames between and whatever the velocity at exit, leaves
  the score and every colour as they were before the entry.
\<close>

theorem C2_entry_arms_iff_falling:
  "scorable (onCollideBegin a g) = js_lt (velocity_y a) (Fin 0)
   \<and> (velocity_y a = Fin v \<longrightarrow> scorable (onCollideBegin a g) = (v < 0))
   \<and> (\<not> js_lt (velocity_y a) (Fin 0) \<longrightarrow>
        zustand (run ex (Enter a # map Frame ts @ [Exit b]) g) = frames ex ts (zustand g)
        \<and> score (zustand (run ex (Enter a # map Frame ts @ [Exit b]) g)) = score (zustand g)
        \<and> material_color (run ex (Enter a # map Frame ts @ [Exit b]) g) = material_color g)"
  by (simp add: run_append run_frames zustand_onCollideEnd material_color_onCollideEnd
      scorable_onCollideBegin onCollideBegin_keeps score_frames)

text \<open>
  An entry at vertical velocity \<open>+2\<close> into a region whose flag was set clears the flag;
  with a frame at 1 second and an exit at \<open>-1\<close> after it, the score is still 0.
\<close>

theorem C2_entry_arms_iff_falling_witness:
  "\<not> scorable (onCollideBegin \<lparr>ident = 0, velocity_y = Fin 2\<rparr> (initial_game\<lparr>scorable := True\<rparr>))
   \<and> score (zustand (run (\<lambda>x. NaN) (Enter \<lparr>ident = 0, velocity_y = Fin 2\<rparr>
        # map Frame [Fin 1] @ [Exit \<lparr>ident = 0, velocity_y = Fin (- 1)\<rparr>])
        (initial_game\<lparr>scorable := True\<rparr>))) = 0"
  using C2_entry_arms_iff_falling [of "\<lparr>ident = 0, velocity_y = Fin 2\<rparr>"
      "initial_game\<lparr>scorable := True\<rparr>" 2 "\<lambda>x. NaN" "[Fin 1]"
      "\<lparr>ident = 0, velocity_y = Fin (- 1)\<rparr>"]
  by (simp add: initial_game_def useStore_def score_useFrame)

text \<open>
  Claim C9. An entry into a region whose flag is already set overwrites the flag: after
  the entry the flag is true exactly when the vertical velocity of this entry is below
  0. After two entries in a row the whole state is the one that the second entry alone
  would have produced.
\<close>

theorem C9_last_entry_wins:
  "scorable (onCollideBegin a (g\<lparr>scorable := True\<rparr>)) = js_lt (velocity_y a) (Fin 0)
   \<and> scorable (onCollideBegin a2 (onCollideBegin a1 g)) = js_lt (velocity_y a2) (Fin 0)
   \<and> onCollideBegin a2 (onCollideBegin a1 g) = onCollideBegin a2 g"
  by (simp add: onCollideBegin_eq)

text \<open>
  Claim C7. Take any trace from the initial game in which no armed entry is pending
  (the most recent collision event is not an entry at negative vertical velocity, or
  there is no collision event at all). An exit received then changes nothing: the
  state after it is the state before it, so the score is the same and no body is
  recoloured. The same holds in every state whose flag is false, for every body; in
  particular for an exit that comes after frames only, and for an exit that follows
  another exit. The handler contains no operation that throws; it is a total function
  of the body and the state.
\<close>

theorem C7_unarmed_exit_is_noop:
  "(\<not> armed_entry_pending evs \<longrightarrow>
      run ex (evs @ [Exit b]) initial_game = run ex evs initial_game)
   \<and> (\<not> scorable g \<longrightarrow> onCollideEnd b g = g)
   \<and> run ex (map Frame ts @ [Exit b]) initial_game = run ex (map Frame ts) initial_game
   \<and> onCollideEnd b' (onCollideEnd b g') = onCollideEnd b g'"
proof (intro conjI impI)
  assume "\<not> armed_entry_pending evs"
  then have "\<not> scorable (run ex evs initial_game)"
    by (simp add: scorable_run_initial)
  then show "run ex (evs @ [Exit b]) initial_game = run ex evs initial_game"
    by (simp add: run_append onCollideEnd_unarmed)
next
  assume "\<not> scorable g"
  then show "onCollideEnd b g = g"
    by (rule onCollideEnd_unarmed)
next
  have "\<not> scorable (run ex (map Frame ts) initial_game)"
    by (simp add: run_frames initial_game_def)
  then show "run ex (map Frame ts @ [Exit b]) initial_game = run ex (map Frame ts) initial_game"
    by (simp add: run_append onCollideEnd_unarmed)
next
  show "onCollideEnd b' (onCollideEnd b g') = onCollideEnd b g'"
    by (simp add: onCollideEnd_unarmed scorable_onCollideEnd)
qed

text \<open>
  A made basket (entry at \<open>-3\<close>, exit at \<open>0.5\<close>) uses the flag up: a second exit at
  \<open>-5\<close> leaves the state as it was. So does an exit at \<open>-5\<close> in a state with the flag
  false and the score at 2.
\<close>

theorem C7_unarmed_exit_is_noop_witness:
  "run (\<lambda>x. NaN) ([Enter \<lparr>ident = 3, velocity_y = Fin (- 3)\<rparr>,
        Exit \<lparr>ident = 3, velocity_y = Fin 0.5\<rparr>] @ [Exit \<lparr>ident = 3, velocity_y = Fin (- 5)\<rparr>])
      initial_game
    = run (\<lambda>x. NaN) [Enter \<lparr>ident = 3, velocity_y = Fin (- 3)\<rparr>,
        Exit \<lparr>ident = 3, velocity_y = Fin 0.5\<rparr>] initial_game
   \<and> onCollideEnd \<lparr>ident = 3, velocity_y = Fin (- 5)\<rparr>
     \<lparr>zustand = useStore\<lparr>score := 2\<rparr>, scorable = False, material_color = (\<lambda>b. ball_color)\<rparr>
   = \<lparr>zustand = useStore\<lparr>score := 2\<rparr>, scorable = False, material_color = (\<lambda>b. ball_color)\<rparr>"
proof -
  have "\<not> armed_entry_pending [Enter \<lparr>ident = 3, velocity_y = Fin (- 3)\<rparr>,
      Exit \<lparr>ident = 3, velocity_y = Fin 0.5\<rparr>]"
    by (simp add: armed_entry_pending_def)
  with C7_unarmed_exit_is_noop [of
      "[Enter \<lparr>ident = 3, velocity_y = Fin (- 3)\<rparr>, Exit \<lparr>ident = 3, velocity_y = Fin 0.5\<rparr>]"
      "\<lambda>x. NaN" "\<lparr>ident = 3, velocity_y = Fin (- 5)\<rparr>"
      "\<lparr>zustand = useStore\<lparr>score := 2\<rparr>, scorable = False, material_color = (\<lambda>b. ball_color)\<rparr>"]
  show ?thesis by simp
qed

text \<open>
  Claim C8. NaN is below neither threshold. An entry whose vertical velocity is NaN
  leaves the flag false, and the exit that follows, with any number of frames between,
  leaves the score and every colour as they were. An exit whose vertical velocity is
  NaN changes neither the store nor any colour, whether the flag was set or not. Both
  handlers return a state for these bodies as for all others.
\<close>

theorem C8_NaN_never_scores:
  "\<not> js_lt NaN (Fin 0) \<and> \<not> js_lt NaN (Fin 1)
   \<and> scorable (onCollideBegin (a\<lparr>velocity_y := NaN\<rparr>) g) = False
   \<and> score (zustand (run ex (Enter (a\<lparr>velocity_y := NaN\<rparr>) # map Frame ts @ [Exit b]) g))
       = score (zustand g)
   \<and> material_color (run ex (Enter (a\<lparr>velocity_y := NaN\<rparr>) # map Frame ts @ [Exit b]) g)
       = material_color g
   \<and> zustand (onCollideEnd (b\<lparr>velocity_y := NaN\<rparr>) g) = zustand g
   \<and> material_color (onCollideEnd (b\<lparr>velocity_y := NaN\<rparr>) g) = material_color g"
  by (simp add: run_append run_frames zustand_onCollideEnd material_color_onCollideEnd
      scorable_onCollideBegin onCollideBegin_keeps score_frames)

subsection \<open>Scoring after the round\<close>

text \<open>
  Claim C5, as stated, fails. The first frame arrives at 12 seconds and ends the game.
  A ball then enters the region at vertical velocity \<open>-3\<close> and leaves it at \<open>0.5\<close>:
  the exit is processed while the game is over, and the score goes from 0 to 1.
\<close>

theorem C5_counterexample:
  "gameOver (zustand (run (\<lambda>x. NaN)
      [Frame (Fin 12), Enter \<lparr>ident = 0, velocity_y = Fin (- 3)\<rparr>] initial_game))
   \<and> score (zustand (run (\<lambda>x. NaN)
      [Frame (Fin 12), Enter \<lparr>ident = 0, velocity_y = Fin (- 3)\<rparr>] initial_game)) = 0
   \<and> score (zustand (run (\<lambda>x. NaN)
      [Frame (Fin 12), Enter \<lparr>ident = 0, velocity_y = Fin (- 3)\<rparr>,
       Exit \<lparr>ident = 0, velocity_y = Fin 0.5\<rparr>] initial_game)) = 1"
  by (simp add: zustand_onCollideEnd scorable_onCollideBegin onCollideBegin_keeps
      score_addPoint frame_def initial_game_def useStore_def useFrame_def setGameOver_def
      js_gt_def ROUND_DURATION_def)

text \<open>
  Claim C5, amended. The exit handler does not look at the game-over flag. An exit
  processed while the game is over raises the score by one when the flag of the region
  is set and the vertical velocity is below 1, and leaves the score unchanged
  otherwise; the game stays over. Setting the game-over flag to any value before the
  exit gives the same state as setting it after the exit.
\<close>

theorem C5_exit_scores_whatever_gameOver:
  "(gameOver (zustand g) \<longrightarrow>
      score (zustand (onCollideEnd b g)) =
        score (zustand g) + (if scorable g \<and> js_lt (velocity_y b) (Fin 1) then 1 else 0)
      \<and> gameOver (zustand (onCollideEnd b g)))
   \<and> onCollideEnd b (g\<lparr>zustand := setGameOver over (zustand g)\<rparr>) =
       (onCollideEnd b g)\<lparr>zustand := setGameOver over (zustand (onCollideEnd b g))\<rparr>"
  by (simp add: onCollideEnd_def setHex_def addPoint_def setGameOver_def)

text \<open>
  The game is over and the region is armed: an exit at \<open>0.5\<close> brings the score from 0
  to 1, an exit at \<open>4\<close> leaves it at 0.
\<close>

theorem C5_exit_scores_whatever_gameOver_witness:
  "score (zustand (onCollideEnd \<lparr>ident = 0, velocity_y = Fin 0.5\<rparr>
      \<lparr>zustand = useStore\<lparr>gameOver := True\<rparr>, scorable = True,
       material_color = (\<lambda>b. ball_color)\<rparr>)) = 1
   \<and> score (zustand (onCollideEnd \<lparr>ident = 0, velocity_y = Fin 4\<rparr>
      \<lparr>zustand = useStore\<lparr>gameOver := True\<rparr>, scorable = True,
       material_color = (\<lambda>b. ball_color)\<rparr>)) = 0"
  using C5_exit_scores_whatever_gameOver [of
      "\<lparr>zustand = useStore\<lparr>gameOver := True\<rparr>, scorable = True,
        material_color = (\<lambda>b. ball_color)\<rparr>" "\<lparr>ident = 0, velocity_y = Fin 0.5\<rparr>"]
    C5_exit_scores_whatever_gameOver [of
      "\<lparr>zustand = useStore\<lparr>gameOver := True\<rparr>, scorable = True,
        material_color = (\<lambda>b. ball_color)\<rparr>" "\<lparr>ident = 0, velocity_y = Fin 4\<rparr>"]
  by (simp add: useStore_def)

end
